theory Spec2Isabelle
  imports
    Complex_Main
    "HOL-Library.AList"
    "HOL-Library.Char_ord"
    "HOL-Library.List_Lexorder"
    "HOL-Library.Product_Lexorder"
begin

section \<open>Common data model\<close>

text \<open>
  Timestamps are integers (nanoseconds); \<open>0\<close> stands for Go's zero \<open>time.Time\<close>, the value
  \<open>IsZero\<close> recognises. Go's \<open>int\<close> is 64 bits wide: the two products of request
  parameters that can leave that range are wrapped with \<open>wrap64\<close>. \<open>float64\<close> values are
  modelled by exact rationals.
\<close>

type_synonym time = int

definition wrap64 :: "int \<Rightarrow> int" where
  "wrap64 x = (x + 2 ^ 63) mod 2 ^ 64 - 2 ^ 63"

text \<open>Go's integer division truncates towards zero.\<close>

definition go_div :: "int \<Rightarrow> int \<Rightarrow> int" where
  "go_div a b = sgn a * sgn b * (\<bar>a\<bar> div \<bar>b\<bar>)"

definition minute :: int where
  "minute = 60 * 1000000000"

text \<open>
  The library functions the handlers call: \<open>strconv.Atoi\<close>,
  \<open>time.Parse(time.RFC3339, _)\<close>, \<open>Time.Format(time.RFC3339)\<close>, \<open>time.Now\<close>, and
  \<open>bson.Unmarshal\<close> of a raw document into the struct type of the given name (whether it
  succeeds). They are parameters of the model.
\<close>

datatype http_error = BadRequest string | InternalServerError string

section \<open>Events (collections \<open>tracer_events\<close> and \<open>events\<close>)\<close>

record event =
  etype :: string
  eventType :: string
  timestamp :: time
  nodeId :: string
  recipientPeerId :: string
  sourcePeerId :: string
  vote_height :: int
  height :: int

record env =
  atoi :: "string \<Rightarrow> int option"
  parseRFC3339 :: "string \<Rightarrow> time option"
  formatRFC3339 :: "time \<Rightarrow> string"
  now :: time
  unmarshal :: "string \<Rightarrow> event \<Rightarrow> bool"

section \<open>utils/time.go\<close>

definition TimeWindowFromContext :: "env \<Rightarrow> string \<Rightarrow> string \<Rightarrow> (time \<times> time) option" where
  "TimeWindowFromContext e fromStr toStr =
    (if fromStr = [] \<and> toStr = [] then Some (now e - minute, now e)
     else
       (case (if toStr = [] then Some (now e) else parseRFC3339 e toStr) of
          None \<Rightarrow> None
        | Some to \<Rightarrow>
            (case (if fromStr = [] then Some (to - minute) else parseRFC3339 e fromStr) of
               None \<Rightarrow> None
             | Some from \<Rightarrow> Some (from, to))))"

section \<open>types/response.go: DecodeConsensusEvent\<close>

text \<open>
  The switch on the document's \<open>eventType\<close> field chooses the struct type the document is
  decoded into; unrecognised tags fall back to \<open>BaseEvent\<close>.
\<close>

definition event_struct :: "string \<Rightarrow> string" where
  "event_struct t =
    (if t = ''p2pVote'' then ''EventP2pVote''
     else if t = ''p2pBlockPart'' then ''EventP2pBlockPart''
     else if t = ''p2pProposal'' then ''EventP2pProposal''
     else if t = ''enteringNewRound'' then ''EventEnteringNewRound''
     else if t = ''proposeStep'' then ''EventProposeStep''
     else if t = ''enteringPrevoteStep'' then ''EventEnteringPrevoteStep''
     else if t = ''enteringPrecommitStep'' then ''EventEnteringPrecommitStep''
     else if t = ''enteringPrevoteWaitStep'' then ''EventEnteringPrevoteWaitStep''
     else if t = ''enteringPrecommitWaitStep'' then ''EventEnteringPrecommitWaitStep''
     else if t = ''enteringCommitStep'' then ''EventEnteringCommitStep''
     else if t = ''enteringWaitStep'' then ''EventEnteringWaitStep''
     else if t = ''receivedProposal'' then ''EventReceivedProposal''
     else if t = ''receivedCompleteProposalBlock'' then ''EventReceivedCompleteProposalBlock''
     else if t = ''scheduledTimeout'' then ''EventScheduledTimeout''
     else ''BaseEvent'')"

text \<open>A decoded event: the struct type chosen and the document it was filled from.\<close>

type_synonym decoded = "string \<times> event"

definition DecodeConsensusEvent :: "env \<Rightarrow> event \<Rightarrow> string + decoded" where
  "DecodeConsensusEvent e raw =
    (if \<not> unmarshal e ''baseDoc'' raw then Inl ''failed to decode base document''
     else if unmarshal e (event_struct (eventType raw)) raw
       then Inr (event_struct (eventType raw), raw)
       else Inl ''failed to decode event'')"

section \<open>handlers/consensus\_events\_handler.go\<close>

record query =
  q_from :: string
  q_to :: string
  q_limit :: string
  q_cursor :: string
  q_before :: string
  q_segment :: string
  q_includeTotalCount :: string

record CursorPaginationMeta =
  Limit :: int
  HasNext :: bool
  HasPrevious :: bool
  NextCursor :: "string option"
  PreviousCursor :: "string option"
  TotalCount :: "int option"

record PaginatedEventsResponse =
  Data :: "decoded list"
  Pagination :: CursorPaginationMeta

text \<open>Lines 33-38: the limit of a request, 10000 unless the parameter parses into (0, 50000].\<close>

definition event_limit :: "env \<Rightarrow> string \<Rightarrow> int" where
  "event_limit e limitStr =
    (if limitStr \<noteq> [] then
       (case atoi e limitStr of
          Some val \<Rightarrow> if 0 < val \<and> val \<le> 50000 then val else 10000
        | None \<Rightarrow> 10000)
     else 10000)"

text \<open>Lines 46-51: a 1-indexed segment becomes a skip offset (a product of Go ints).\<close>

definition segment_skip :: "env \<Rightarrow> string \<Rightarrow> int \<Rightarrow> int" where
  "segment_skip e segmentStr limit =
    (if segmentStr \<noteq> [] then
       (case atoi e segmentStr of
          Some segment \<Rightarrow> if 0 < segment then wrap64 ((segment - 1) * limit) else 0
        | None \<Rightarrow> 0)
     else 0)"

definition excludedTypes :: "string list" where
  "excludedTypes =
    [''p2pProposal'', ''p2pProposalPOL'', ''p2pNewRoundStep'', ''p2pHasVote'',
     ''p2pVoteSetMaj23'', ''p2pVoteSetBits'', ''p2pHasProposalBlockPart'']"

text \<open>
  The query document \<open>matchConditions\<close>: the \<open>$nin\<close> list on \<open>type\<close> and the bounds on
  \<open>timestamp\<close> (\<open>$gte\<close>, \<open>$lte\<close>, \<open>$gt\<close>, \<open>$lt\<close>), each present or not.
\<close>

record timestampFilter =
  f_gte :: "time option"
  f_lte :: "time option"
  f_gt :: "time option"
  f_lt :: "time option"

record matchConditions =
  type_nin :: "string list"
  ts_filter :: timestampFilter

definition ts_matches :: "timestampFilter \<Rightarrow> time \<Rightarrow> bool" where
  "ts_matches f t =
    ((case f_gte f of None \<Rightarrow> True | Some b \<Rightarrow> b \<le> t) \<and>
     (case f_lte f of None \<Rightarrow> True | Some b \<Rightarrow> t \<le> b) \<and>
     (case f_gt f of None \<Rightarrow> True | Some b \<Rightarrow> b < t) \<and>
     (case f_lt f of None \<Rightarrow> True | Some b \<Rightarrow> t < b))"

definition matches :: "matchConditions \<Rightarrow> event \<Rightarrow> bool" where
  "matches mc d = (etype d \<notin> set (type_nin mc) \<and> ts_matches (ts_filter mc) (timestamp d))"

text \<open>
  Lines 64-98. The result is the error response of a malformed \<open>cursor\<close> or \<open>before\<close>, or
  the query document.
\<close>

definition build_match ::
  "env \<Rightarrow> bool \<Rightarrow> time \<Rightarrow> time \<Rightarrow> string \<Rightarrow> string \<Rightarrow> http_error + matchConditions" where
  "build_match e hasTimeFilter fromTime toTime cursor before =
    (let f0 = \<lparr>f_gte = (if hasTimeFilter then Some fromTime else None),
               f_lte = (if hasTimeFilter then Some toTime else None),
               f_gt = None, f_lt = None\<rparr>
     in case (if cursor \<noteq> [] then
                (case parseRFC3339 e cursor of
                   None \<Rightarrow> Inl (BadRequest ''invalid cursor format, use RFC3339'')
                 | Some cursorTime \<Rightarrow> Inr (f0\<lparr>f_gt := Some cursorTime\<rparr>))
              else Inr f0) of
          Inl err \<Rightarrow> Inl err
        | Inr f1 \<Rightarrow>
            (case (if before \<noteq> [] then
                     (case parseRFC3339 e before of
                        None \<Rightarrow> Inl (BadRequest ''invalid before format, use RFC3339'')
                      | Some beforeTime \<Rightarrow> Inr (f1\<lparr>f_lt := Some beforeTime\<rparr>))
                   else Inr f1) of
               Inl err \<Rightarrow> Inl err
             | Inr f2 \<Rightarrow> Inr \<lparr>type_nin = excludedTypes, ts_filter = f2\<rparr>))"

text \<open>
  Lines 117-132: the aggregation pipeline \<open>$match\<close>, \<open>$sort\<close> by timestamp ascending (ties
  keep the stored order), \<open>$skip\<close> when the offset is positive, \<open>$limit\<close>.
\<close>

definition run_pipeline :: "event list \<Rightarrow> matchConditions \<Rightarrow> int \<Rightarrow> int \<Rightarrow> event list" where
  "run_pipeline coll mc skip fetchLimit =
    (let sorted = sort_key timestamp (filter (matches mc) coll);
         skipped = (if 0 < skip then drop (nat skip) sorted else sorted)
     in take (nat fetchLimit) skipped)"

text \<open>
  Lines 146-169: every fetched document is decoded and paired with its timestamp; the
  first failure ends the request.
\<close>

fun decode_all :: "env \<Rightarrow> event list \<Rightarrow> http_error + (decoded \<times> time) list" where
  "decode_all e [] = Inr []"
| "decode_all e (d # ds) =
    (case DecodeConsensusEvent e d of
       Inl msg \<Rightarrow> Inl (InternalServerError (''failed to decode event: '' @ msg))
     | Inr ev \<Rightarrow>
         (case decode_all e ds of
            Inl err \<Rightarrow> Inl err
          | Inr rest \<Rightarrow> Inr ((ev, timestamp d) # rest)))"

text \<open>Lines 176-219: trimming, the flags, the cursors and the response.\<close>

definition build_response ::
  "env \<Rightarrow> int \<Rightarrow> string \<Rightarrow> int option \<Rightarrow> (decoded \<times> time) list \<Rightarrow> PaginatedEventsResponse" where
  "build_response e limit cursor totalCount allEventsWithTimestamps =
    (let hasNext = (limit < int (length allEventsWithTimestamps));
         eventsToReturn =
           (if hasNext \<and> limit < int (length allEventsWithTimestamps)
            then take (nat limit) allEventsWithTimestamps
            else allEventsWithTimestamps);
         events = map fst eventsToReturn;
         hasPrevious = (cursor \<noteq> []);
         nextCursor =
           (if hasNext \<and> 0 < length eventsToReturn then
              (let lastTimestamp = snd (last eventsToReturn)
               in if lastTimestamp \<noteq> 0 then Some (formatRFC3339 e lastTimestamp) else None)
            else None);
         previousCursor =
           (if hasPrevious \<and> 0 < length eventsToReturn then
              (let firstTimestamp = snd (hd eventsToReturn)
               in if firstTimestamp \<noteq> 0 then Some (formatRFC3339 e firstTimestamp) else None)
            else None)
     in \<lparr>Data = events,
         Pagination = \<lparr>Limit = limit, HasNext = hasNext, HasPrevious = hasPrevious,
                        NextCursor = nextCursor, PreviousCursor = previousCursor,
                        TotalCount = totalCount\<rparr>\<rparr>)"

definition GetConsensusEventsHandler ::
  "env \<Rightarrow> event list \<Rightarrow> query \<Rightarrow> http_error + PaginatedEventsResponse" where
  "GetConsensusEventsHandler e coll q =
    (let hasTimeFilter = (q_from q \<noteq> [] \<or> q_to q \<noteq> [])
     in case (if hasTimeFilter then TimeWindowFromContext e (q_from q) (q_to q)
              else Some (0, 0)) of
          None \<Rightarrow> Inl (BadRequest ''invalid time range'')
        | Some (fromTime, toTime) \<Rightarrow>
            (let limit = event_limit e (q_limit q);
                 includeTotalCount = (q_includeTotalCount q = ''true'');
                 skip = segment_skip e (q_segment q) limit
             in case build_match e hasTimeFilter fromTime toTime (q_cursor q) (q_before q) of
                  Inl err \<Rightarrow> Inl err
                | Inr mc \<Rightarrow>
                    (let totalCount =
                           (if includeTotalCount
                            then Some (int (length (filter (matches mc) coll))) else None);
                         fetchLimit = limit + 1
                     in case decode_all e (run_pipeline coll mc skip fetchLimit) of
                          Inl err \<Rightarrow> Inl err
                        | Inr allEventsWithTimestamps \<Rightarrow>
                            Inr (build_response e limit (q_cursor q) totalCount
                                   allEventsWithTimestamps))))"

text \<open>
  The filters of a request, stated on the request itself: a document passes when its type
  is none of the excluded ones, its timestamp lies in the time window (if \<open>from\<close> or
  \<open>to\<close> is given), strictly after the cursor (if given) and strictly before \<open>before\<close>
  (if given).
\<close>

definition admitted :: "env \<Rightarrow> query \<Rightarrow> event \<Rightarrow> bool" where
  "admitted e q d =
    (etype d \<notin> set excludedTypes \<and>
     (q_from q \<noteq> [] \<or> q_to q \<noteq> [] \<longrightarrow>
        (case TimeWindowFromContext e (q_from q) (q_to q) of
           Some (f, t) \<Rightarrow> f \<le> timestamp d \<and> timestamp d \<le> t
         | None \<Rightarrow> False)) \<and>
     (q_cursor q \<noteq> [] \<longrightarrow>
        (case parseRFC3339 e (q_cursor q) of
           Some c \<Rightarrow> c < timestamp d
         | None \<Rightarrow> False)) \<and>
     (q_before q \<noteq> [] \<longrightarrow>
        (case parseRFC3339 e (q_before q) of
           Some b \<Rightarrow> timestamp d < b
         | None \<Rightarrow> False)))"

section \<open>handlers/metrics\_handler.go: paging parameters of the latency table\<close>

definition latency_page :: "env \<Rightarrow> string \<Rightarrow> int" where
  "latency_page e pageStr =
    (if pageStr \<noteq> [] then
       (case atoi e pageStr of
          Some parsedPage \<Rightarrow> if 0 < parsedPage then parsedPage else 1
        | None \<Rightarrow> 1)
     else 1)"

definition latency_perPage :: "env \<Rightarrow> string \<Rightarrow> int" where
  "latency_perPage e perPageStr =
    (if perPageStr \<noteq> [] then
       (case atoi e perPageStr of
          Some parsedPerPage \<Rightarrow>
            if 0 < parsedPerPage \<and> parsedPerPage \<le> 1000 then parsedPerPage else 100
        | None \<Rightarrow> 100)
     else 100)"

definition latency_threshold :: "string \<Rightarrow> string" where
  "latency_threshold thresholdStr =
    (if thresholdStr \<noteq> [] then
       (if thresholdStr = ''p50'' \<or> thresholdStr = ''p95'' \<or> thresholdStr = ''p99''
        then thresholdStr else ''p95'')
     else ''p95'')"

section \<open>metrics/vote\_latencies.go\<close>

text \<open>
  Documents of the collection \<open>vote_latencies\<close>. The latency is a duration in
  nanoseconds. The store's approximate \<open>$percentile\<close> accumulator is a parameter
  \<open>pct p xs\<close> of the model; the store only evaluates it on a non-empty input.
\<close>

record VoteLatency =
  vl_status :: string
  vl_sentTime :: time
  vl_receivedTime :: time
  vl_senderPeerId :: string
  vl_recipientPeerId :: string
  vl_type :: string
  vl_height :: int
  vl_round :: int
  vl_validatorIndex :: int
  vl_latency :: int

text \<open>
  The constant \<open>vote.VoteMsgStatusConfirmed\<close> of the types package; the sibling
  \<open>ComputePairwiseLatencyPercentiles\<close> writes the same status as the literal below.
\<close>

definition VoteMsgStatusConfirmed :: string where
  "VoteMsgStatusConfirmed = ''confirmed''"

datatype store_error = NegativeSkip | NonPositiveLimit

record VoteLatencyResult =
  vr_Data :: "VoteLatency list"
  vr_Total :: int

definition confirmed_in_window :: "time \<Rightarrow> time \<Rightarrow> VoteLatency \<Rightarrow> bool" where
  "confirmed_in_window from to d =
    (vl_status d = VoteMsgStatusConfirmed \<and> from \<le> vl_sentTime d \<and> vl_sentTime d \<le> to)"

text \<open>
  Lines 41-54: \<open>$match\<close>, then \<open>$group\<close> with \<open>_id: nil\<close>. The group stage emits no
  document for an empty input, one document with the one-element percentile array
  otherwise.
\<close>

definition percentilePipeline ::
  "(rat \<Rightarrow> int list \<Rightarrow> rat) \<Rightarrow> VoteLatency list \<Rightarrow> time \<Rightarrow> time \<Rightarrow> string \<Rightarrow> rat
    \<Rightarrow> (string \<times> rat list) list" where
  "percentilePipeline pct coll from to percentileKey percentileValue =
    (let matched = filter (confirmed_in_window from to) coll
     in if matched = [] then []
        else [(percentileKey, [pct percentileValue (map vl_latency matched)])])"

definition matchStage :: "VoteLatency list \<Rightarrow> time \<Rightarrow> time \<Rightarrow> rat \<Rightarrow> VoteLatency list" where
  "matchStage coll from to threshold =
    filter (\<lambda>d. confirmed_in_window from to d \<and> threshold \<le> of_int (vl_latency d)) coll"

text \<open>
  Lines 111-116: \<open>$sort\<close> by \<open>sentTime\<close> ascending, \<open>$skip\<close>, \<open>$limit\<close>. The store
  rejects a negative skip and a limit that is not positive.
\<close>

definition dataPipeline ::
  "VoteLatency list \<Rightarrow> int \<Rightarrow> int \<Rightarrow> store_error + VoteLatency list" where
  "dataPipeline matched skip perPage =
    (if skip < 0 then Inl NegativeSkip
     else if perPage \<le> 0 then Inl NonPositiveLimit
     else Inr (take (nat perPage) (drop (nat skip) (sort_key vl_sentTime matched))))"

text \<open>Lines 22-38: the switch from the percentile string to its value and key.\<close>

definition percentile_of :: "string \<Rightarrow> rat \<times> string" where
  "percentile_of percentile =
    (if percentile = ''p50'' then (50 / 100, ''p50'')
     else if percentile = ''p95'' then (95 / 100, ''p95'')
     else if percentile = ''p99'' then (99 / 100, ''p99'')
     else (95 / 100, ''p95''))"

definition GetVoteLatencies ::
  "(rat \<Rightarrow> int list \<Rightarrow> rat) \<Rightarrow> VoteLatency list \<Rightarrow> time \<Rightarrow> time \<Rightarrow> int \<Rightarrow> int \<Rightarrow> string
    \<Rightarrow> store_error + VoteLatencyResult" where
  "GetVoteLatencies pct coll from to page perPage percentile =
    (let (percentileValue, percentileKey) = percentile_of percentile;
         percentileResult =
           (case percentilePipeline pct coll from to percentileKey percentileValue of
              [] \<Rightarrow> Map.empty
            | doc # _ \<Rightarrow> map_of [doc])
     in case percentileResult percentileKey of
          None \<Rightarrow> Inr \<lparr>vr_Data = [], vr_Total = 0\<rparr>
        | Some [] \<Rightarrow> Inr \<lparr>vr_Data = [], vr_Total = 0\<rparr>
        | Some (threshold # _) \<Rightarrow>
            (let matched = matchStage coll from to threshold;
                 total = int (length matched);
                 skip = wrap64 ((page - 1) * perPage)
             in case dataPipeline matched skip perPage of
                  Inl err \<Rightarrow> Inl err
                | Inr latencies \<Rightarrow> Inr \<lparr>vr_Data = latencies, vr_Total = total\<rparr>))"

subsection \<open>ComputeVoteStatistics\<close>

record VoteStatisticsResponse =
  Sender :: string
  Receiver :: string
  VoteType :: string
  Count :: int
  P50 :: rat
  P90 :: rat
  P95 :: rat
  P99 :: rat
  MaxMs :: rat
  SpikePerc :: rat

text \<open>The documents the pipeline hands to the decoding loop.\<close>

record stats_doc =
  d_sender :: string
  d_receiver :: string
  d_voteType :: string
  d_count :: int
  d_latencies :: "int list"
  d_p50 :: "rat list"
  d_p90 :: "rat list"
  d_p95 :: "rat list"
  d_p99 :: "rat list"
  d_max :: int
  d_spikePerc :: rat

definition stats_key :: "VoteLatency \<Rightarrow> string \<times> string \<times> string" where
  "stats_key d = (vl_senderPeerId d, vl_recipientPeerId d, vl_type d)"

definition list_max :: "int list \<Rightarrow> int" where
  "list_max xs = (case xs of [] \<Rightarrow> 0 | x # ys \<Rightarrow> fold max ys x)"

text \<open>
  Lines 149-198 for one group: \<open>$group\<close> (count and pushed latencies), the percentiles
  and the maximum, then \<open>p95Value\<close>, \<open>spikeThreshold\<close>, \<open>spikes\<close> and \<open>spikePerc\<close>.
\<close>

definition stats_group ::
  "(rat \<Rightarrow> int list \<Rightarrow> rat) \<Rightarrow> VoteLatency list \<Rightarrow> string \<times> string \<times> string \<Rightarrow> stats_doc" where
  "stats_group pct matched k =
    (let members = filter (\<lambda>d. stats_key d = k) matched;
         count = int (length members);
         latencies = map vl_latency members;
         p95 = [pct (95 / 100) latencies];
         p95Value = hd p95;
         spikeThreshold = p95Value * 2;
         spikes = int (length (filter (\<lambda>this. spikeThreshold \<le> of_int this) latencies));
         spikePerc = of_int spikes / of_int count * 100
     in \<lparr>d_sender = fst k, d_receiver = fst (snd k), d_voteType = snd (snd k),
         d_count = count, d_latencies = latencies,
         d_p50 = [pct (5 / 10) latencies], d_p90 = [pct (9 / 10) latencies],
         d_p95 = p95, d_p99 = [pct (99 / 100) latencies],
         d_max = list_max latencies, d_spikePerc = spikePerc\<rparr>)"

text \<open>Lines 229-263: nanoseconds to milliseconds, one response row per document.\<close>

definition ms_of :: "rat list \<Rightarrow> rat" where
  "ms_of p = (case p of [] \<Rightarrow> 0 | v # _ \<Rightarrow> v / 1000000)"

definition stats_row :: "stats_doc \<Rightarrow> VoteStatisticsResponse" where
  "stats_row r =
    \<lparr>Sender = d_sender r, Receiver = d_receiver r, VoteType = d_voteType r,
     Count = d_count r, P50 = ms_of (d_p50 r), P90 = ms_of (d_p90 r),
     P95 = ms_of (d_p95 r), P99 = ms_of (d_p99 r),
     MaxMs = of_int (d_max r) / 1000000, SpikePerc = d_spikePerc r\<rparr>"

text \<open>
  The whole function. The order in which \<open>$group\<close> emits its groups is the store's; the
  final \<open>$sort\<close> on the three key fields fixes the order of the result.
\<close>

definition ComputeVoteStatistics ::
  "(rat \<Rightarrow> int list \<Rightarrow> rat) \<Rightarrow> VoteLatency list \<Rightarrow> time \<Rightarrow> time \<Rightarrow> VoteStatisticsResponse list" where
  "ComputeVoteStatistics pct coll from to =
    (let matched = filter (confirmed_in_window from to) coll;
         groups = map (stats_group pct matched) (remdups (map stats_key matched));
         sorted = sort_key (\<lambda>r. (d_sender r, d_receiver r, d_voteType r)) groups
     in map stats_row sorted)"

subsection \<open>ComputeMessageSuccessRate\<close>

record MessageSuccessRate =
  m_height :: int
  m_sender :: string
  m_receiver :: string
  sentCnt :: int
  recvCnt :: int
  successRate :: rat

text \<open>Lines 510-516: the time window stage, shared in shape by every function of the file.\<close>

definition matchTime :: "time \<Rightarrow> time \<Rightarrow> event \<Rightarrow> bool" where
  "matchTime from to d =
    (from \<le> timestamp d \<and> timestamp d \<le> to \<and> etype d = ''sendVote'')"

text \<open>Lines 520-532: the \<open>$project\<close> stage (height, pair, sent, recv).\<close>

definition rate_project :: "event \<Rightarrow> int \<times> string list \<times> int \<times> int" where
  "rate_project d =
    (vote_height d,
     (if etype d = ''sendVote'' then [nodeId d, recipientPeerId d]
      else [sourcePeerId d, nodeId d]),
     (if etype d = ''sendVote'' then 1 else 0),
     (if etype d = ''receiveVote'' then 1 else 0))"

definition rate_key :: "int \<times> string list \<times> int \<times> int \<Rightarrow> int \<times> string \<times> string" where
  "rate_key p = (fst p, fst (snd p) ! 0, fst (snd p) ! 1)"

text \<open>Lines 533-553: one group, with the guarded division of the last \<open>$project\<close>.\<close>

definition rate_group ::
  "(int \<times> string list \<times> int \<times> int) list \<Rightarrow> int \<times> string \<times> string \<Rightarrow> MessageSuccessRate" where
  "rate_group projected k =
    (let members = filter (\<lambda>p. rate_key p = k) projected;
         sent = sum_list (map (\<lambda>p. fst (snd (snd p))) members);
         recv = sum_list (map (\<lambda>p. snd (snd (snd p))) members)
     in \<lparr>m_height = fst k, m_sender = fst (snd k), m_receiver = snd (snd k),
         sentCnt = sent, recvCnt = recv,
         successRate = (if sent = 0 then 0 else of_int recv / of_int sent)\<rparr>)"

definition ComputeMessageSuccessRate :: "event list \<Rightarrow> time \<Rightarrow> time \<Rightarrow> MessageSuccessRate list" where
  "ComputeMessageSuccessRate coll from to =
    (let s1 = filter (matchTime from to) coll;
         s2 = filter (\<lambda>d. etype d \<in> set [''sendVote'', ''receiveVote'']) s1;
         projected = map rate_project s2;
         groups = map (rate_group projected) (remdups (map rate_key projected))
     in sort_key m_height groups)"

subsection \<open>ComputeBlockEndToEndLatencyByHeight\<close>

record BlockConsensusLatency =
  b_height :: int
  p50Ms :: "rat list"
  p95Ms :: "rat list"

text \<open>
  Lines 586-604: \<open>$lookup\<close> into the collection \<open>events\<close> and \<open>$unwind\<close>: one
  (height, latency) point per matching pair.
\<close>

definition e2e_lookup :: "event list \<Rightarrow> event \<Rightarrow> (int \<times> int) list" where
  "e2e_lookup events d =
    map (\<lambda>r. (height d, timestamp r - timestamp d))
      (filter (\<lambda>r. etype r = ''receivedCompleteProposalBlock'' \<and> height r = height d) events)"

definition e2e_group ::
  "(rat \<Rightarrow> int list \<Rightarrow> rat) \<Rightarrow> (int \<times> int) list \<Rightarrow> int \<Rightarrow> BlockConsensusLatency" where
  "e2e_group pct points h =
    (let lats = map snd (filter (\<lambda>p. fst p = h) points)
     in \<lparr>b_height = h, p50Ms = [pct (50 / 100) lats], p95Ms = [pct (95 / 100) lats]\<rparr>)"

definition ComputeBlockEndToEndLatencyByHeight ::
  "(rat \<Rightarrow> int list \<Rightarrow> rat) \<Rightarrow> event list \<Rightarrow> event list \<Rightarrow> time \<Rightarrow> time
    \<Rightarrow> BlockConsensusLatency list" where
  "ComputeBlockEndToEndLatencyByHeight pct coll events from to =
    (let s1 = filter (matchTime from to) coll;
         s2 = filter (\<lambda>d. etype d = ''enteringNewRound'') s1;
         points = concat (map (e2e_lookup events) s2);
         groups = map (e2e_group pct points) (remdups (map fst points))
     in sort_key b_height groups)"

section \<open>handlers/metrics\_handler.go: GetVoteLatenciesHandler\<close>

record VoteLatencyResponse =
  r_Height :: int
  r_Round :: int
  r_Type :: string
  r_ValidatorIdx :: int
  r_Sender :: string
  r_Receiver :: string
  r_SentTime :: time
  r_ReceivedTime :: time
  r_LatencyMs :: rat

record PaginationMeta =
  Page :: int
  PerPage :: int
  Total :: int
  TotalPages :: int

record PaginatedVoteLatencyResponse =
  pv_Data :: "VoteLatencyResponse list"
  pv_Pagination :: PaginationMeta

definition to_response :: "VoteLatency \<Rightarrow> VoteLatencyResponse" where
  "to_response v =
    \<lparr>r_Height = vl_height v, r_Round = vl_round v, r_Type = vl_type v,
     r_ValidatorIdx = vl_validatorIndex v, r_Sender = vl_senderPeerId v,
     r_Receiver = vl_recipientPeerId v, r_SentTime = vl_sentTime v,
     r_ReceivedTime = vl_receivedTime v, r_LatencyMs = of_int (vl_latency v) / 1000000\<rparr>"

definition GetVoteLatenciesHandler ::
  "env \<Rightarrow> (rat \<Rightarrow> int list \<Rightarrow> rat) \<Rightarrow> VoteLatency list
    \<Rightarrow> string \<Rightarrow> string \<Rightarrow> string \<Rightarrow> string \<Rightarrow> string
    \<Rightarrow> http_error + PaginatedVoteLatencyResponse" where
  "GetVoteLatenciesHandler e pct coll fromStr toStr pageStr perPageStr thresholdStr =
    (case TimeWindowFromContext e fromStr toStr of
       None \<Rightarrow> Inl (BadRequest ''invalid time range'')
     | Some (from, to) \<Rightarrow>
         (let page = latency_page e pageStr;
              perPage = latency_perPage e perPageStr;
              threshold = latency_threshold thresholdStr
          in case GetVoteLatencies pct coll from to page perPage threshold of
               Inl err \<Rightarrow> Inl (InternalServerError ''store error'')
             | Inr result \<Rightarrow>
                 Inr \<lparr>pv_Data = map to_response (vr_Data result),
                      pv_Pagination =
                        \<lparr>Page = page, PerPage = perPage, Total = vr_Total result,
                         TotalPages = go_div (vr_Total result + perPage - 1) perPage\<rparr>\<rparr>))"

section \<open>metrics/network\_latency.go: GetNetworkLatencyOverview\<close>

text \<open>
  A stored document is decoded into \<open>bson.M\<close>: a list of fields whose values carry their
  BSON type, which the type assertions of the loop inspect.
\<close>

datatype bson =
    BString string
  | BInt32 int
  | BInt64 int
  | BDouble rat
  | BDoc "(string \<times> bson) list"
  | BNull

text \<open>The accumulator struct \<open>{totalWeightedP95 float64; totalCount int}\<close>.\<close>

record stat =
  totalWeightedP95 :: rat
  totalCount :: int

text \<open>
  The two maps and the two running totals of lines 54-64. A map is kept as an association
  list in insertion order. Go ranges over a map in no fixed order; the sums do not depend
  on it, and of the entry with the highest average only the name can, when several
  entries share the highest value. The documents are taken as decoded (a document that
  fails to decode is skipped by the loop).
\<close>

record overview_acc =
  messageTypeStats :: "(string \<times> stat) list"
  nodeStats :: "(string \<times> stat) list"
  overallWeightedP95 :: rat
  overallCount :: int

text \<open>
  The pattern of lines 88-97, 104-113 and 115-124: add to the entry of a key, or create
  it.
\<close>

definition accumulate :: "string \<Rightarrow> rat \<Rightarrow> int \<Rightarrow> (string \<times> stat) list \<Rightarrow> (string \<times> stat) list" where
  "accumulate k w c m =
    (case map_of m k of
       Some st \<Rightarrow>
         AList.update k \<lparr>totalWeightedP95 = totalWeightedP95 st + w,
                         totalCount = totalCount st + c\<rparr> m
     | None \<Rightarrow> m @ [(k, \<lparr>totalWeightedP95 = w, totalCount = c\<rparr>)])"

definition string_of :: "bson option \<Rightarrow> string" where
  "string_of v = (case v of Some (BString s) \<Rightarrow> s | _ \<Rightarrow> [])"

text \<open>Lines 82-127: one entry of \<open>messageTypes\<close>.\<close>

definition process_message_type ::
  "string \<Rightarrow> string \<Rightarrow> overview_acc \<Rightarrow> string \<times> bson \<Rightarrow> overview_acc" where
  "process_message_type node1Id node2Id a entry =
    (case snd entry of
       BDoc msgInfo \<Rightarrow>
         (case map_of msgInfo ''count'' of
            Some (BInt32 count) \<Rightarrow>
              (case map_of msgInfo ''p95LatencyMs'' of
                 Some (BInt64 p95Latency) \<Rightarrow>
                   (let weightedP95 = of_int p95Latency * of_int count;
                        mts = accumulate (fst entry) weightedP95 count (messageTypeStats a);
                        ns1 = accumulate node1Id (weightedP95 / 2) (go_div count 2) (nodeStats a);
                        ns2 = accumulate node2Id (weightedP95 / 2) (go_div count 2) ns1
                    in \<lparr>messageTypeStats = mts, nodeStats = ns2,
                        overallWeightedP95 = overallWeightedP95 a + weightedP95,
                        overallCount = overallCount a + count\<rparr>)
               | _ \<Rightarrow> a)
          | _ \<Rightarrow> a)
     | _ \<Rightarrow> a)"

text \<open>Lines 68-130: one document of the collection.\<close>

definition process_document :: "overview_acc \<Rightarrow> (string \<times> bson) list \<Rightarrow> overview_acc" where
  "process_document a doc =
    (let node1Id = string_of (map_of doc ''node1Id'');
         node2Id = string_of (map_of doc ''node2Id'')
     in case map_of doc ''messageTypes'' of
          Some (BDoc messageTypes) \<Rightarrow>
            fold (\<lambda>entry acc. process_message_type node1Id node2Id acc entry) messageTypes a
        | _ \<Rightarrow> a)"

text \<open>
  Lines 143-177: the averages of the entries with a positive count, and the entry with
  the highest one (a strict comparison, starting from the empty name and 0).
\<close>

definition averages :: "(string \<times> stat) list \<Rightarrow> (string \<times> rat) list" where
  "averages m =
    map (\<lambda>(k, st). (k, totalWeightedP95 st / of_int (totalCount st)))
      (filter (\<lambda>(k, st). 0 < totalCount st) m)"

definition highest :: "(string \<times> rat) list \<Rightarrow> string \<times> rat" where
  "highest avgs =
    fold (\<lambda>(k, avgLatency) (hk, hv). if hv < avgLatency then (k, avgLatency) else (hk, hv))
      avgs ([], 0)"

record NetworkLatencyOverviewResponse =
  OverallWeightedAvgP95LatencyMs :: rat
  MessageTypeWithHighestAvgP95 :: "string \<times> rat"
  NodeWithHighestAvgP95 :: "string \<times> rat"
  MessageTypeLatency :: "(string \<times> rat) list"
  NodeLatencyContribution :: "(string \<times> rat) list"

definition GetNetworkLatencyOverview :: "(string \<times> bson) list list \<Rightarrow> NetworkLatencyOverviewResponse" where
  "GetNetworkLatencyOverview coll =
    (let a = fold (\<lambda>doc acc. process_document acc doc) coll
               \<lparr>messageTypeStats = [], nodeStats = [], overallWeightedP95 = 0, overallCount = 0\<rparr>
     in \<lparr>OverallWeightedAvgP95LatencyMs =
           (if 0 < overallCount a then overallWeightedP95 a / of_int (overallCount a) else 0),
         MessageTypeWithHighestAvgP95 = highest (averages (messageTypeStats a)),
         NodeWithHighestAvgP95 = highest (averages (nodeStats a)),
         MessageTypeLatency = averages (messageTypeStats a),
         NodeLatencyContribution = averages (nodeStats a)\<rparr>)"

section \<open>Sample environment and sample inputs\<close>

text \<open>
  A concrete instance of the library functions, used to run the model: decimal numerals
  for \<open>strconv.Atoi\<close>, a small table of RFC3339 strings, and documents that always
  decode.
\<close>

definition digit_val :: "char \<Rightarrow> int option" where
  "digit_val =
    map_of
      [(CHR ''0'', 0), (CHR ''1'', 1), (CHR ''2'', 2), (CHR ''3'', 3), (CHR ''4'', 4),
       (CHR ''5'', 5), (CHR ''6'', 6), (CHR ''7'', 7), (CHR ''8'', 8), (CHR ''9'', 9)]"

fun parse_digits :: "int \<Rightarrow> string \<Rightarrow> int option" where
  "parse_digits acc [] = Some acc"
| "parse_digits acc (c # cs) =
    (case digit_val c of None \<Rightarrow> None | Some d \<Rightarrow> parse_digits (10 * acc + d) cs)"

definition atoi_dec :: "string \<Rightarrow> int option" where
  "atoi_dec s = (if s = [] then None else parse_digits 0 s)"

definition rfc3339_table :: "(string \<times> time) list" where
  "rfc3339_table =
    [(''2024-01-01T00:00:01Z'', 1), (''2024-01-01T00:00:02Z'', 2),
     (''2024-01-01T00:00:03Z'', 3), (''2024-01-01T00:00:04Z'', 4),
     (''2024-01-01T00:00:05Z'', 5)]"

definition format_table :: "time \<Rightarrow> string" where
  "format_table t =
    (case filter (\<lambda>p. snd p = t) rfc3339_table of [] \<Rightarrow> [] | p # _ \<Rightarrow> fst p)"

definition env0 :: env where
  "env0 = \<lparr>atoi = atoi_dec, parseRFC3339 = map_of rfc3339_table,
           formatRFC3339 = format_table, now = 5, unmarshal = (\<lambda>_ _. True)\<rparr>"

definition ev :: "string \<Rightarrow> time \<Rightarrow> event" where
  "ev ty t =
    \<lparr>etype = ty, eventType = ty, timestamp = t, nodeId = ''A'', recipientPeerId = ''B'',
     sourcePeerId = ''A'', vote_height = 1, height = 1\<rparr>"

definition q0 :: query where
  "q0 = \<lparr>q_from = [], q_to = [], q_limit = [], q_cursor = [], q_before = [],
         q_segment = [], q_includeTotalCount = []\<rparr>"

definition coll4 :: "event list" where
  "coll4 =
    [ev ''proposeStep'' 1, ev ''p2pHasVote'' 2, ev ''enteringNewRound'' 4,
     ev ''receivedProposal'' 3]"



definition resp10 :: PaginatedEventsResponse where
  "resp10 =
    \<lparr>Data = [(''EventReceivedProposal'', ev ''receivedProposal'' 3),
             (''EventEnteringNewRound'', ev ''enteringNewRound'' 4)],
     Pagination = \<lparr>Limit = 2, HasNext = False, HasPrevious = True,
                    NextCursor = None, PreviousCursor = Some ''2024-01-01T00:00:03Z'',
                    TotalCount = Some 2\<rparr>\<rparr>"

text \<open>The nearest-rank percentile, as one instance of the store's accumulator.\<close>

definition nearest_rank :: "rat \<Rightarrow> int list \<Rightarrow> rat" where
  "nearest_rank p xs = of_int (sort xs ! (nat \<lceil>p * of_nat (length xs)\<rceil> - 1))"

definition sample :: "time \<Rightarrow> int \<Rightarrow> VoteLatency" where
  "sample t l =
    \<lparr>vl_status = ''confirmed'', vl_sentTime = t, vl_receivedTime = t + l,
     vl_senderPeerId = ''A'', vl_recipientPeerId = ''B'', vl_type = ''prevote'',
     vl_height = 1, vl_round = 0, vl_validatorIndex = 0, vl_latency = l\<rparr>"

text \<open>The statistics row of the samples with latencies 5, 2 and 8.\<close>

definition row3 :: VoteStatisticsResponse where
  "row3 = \<lparr>Sender = ''A'', Receiver = ''B'', VoteType = ''prevote'', Count = 3,
     P50 = 5 / 1000000, P90 = 8 / 1000000, P95 = 8 / 1000000, P99 = 8 / 1000000,
     MaxMs = 8 / 1000000, SpikePerc = 0\<rparr>"

text \<open>The two summaries of the overview scenario: (A,B) and (B,C), message type vote.\<close>

definition docAB :: "(string \<times> bson) list" where
  "docAB =
    [(''node1Id'', BString ''A''), (''node2Id'', BString ''B''),
     (''messageTypes'',
        BDoc [(''vote'', BDoc [(''count'', BInt32 10), (''p95LatencyMs'', BInt64 100)])])]"

definition docBC :: "(string \<times> bson) list" where
  "docBC =
    [(''node1Id'', BString ''B''), (''node2Id'', BString ''C''),
     (''messageTypes'',
        BDoc [(''vote'', BDoc [(''count'', BInt32 5), (''p95LatencyMs'', BInt64 200)])])]"

section \<open>Paging limits\<close>

lemma handler_limit:
  "GetConsensusEventsHandler e coll q = Inr resp \<Longrightarrow>
     Limit (Pagination resp) = event_limit e (q_limit q)"
  by (auto simp: GetConsensusEventsHandler_def build_response_def Let_def
      split: option.splits sum.splits prod.splits if_splits)

lemma latency_handler_perPage:
  "GetVoteLatenciesHandler e pct coll f t pg pp th = Inr r \<Longrightarrow>
     PerPage (pv_Pagination r) = latency_perPage e pp"
  by (auto simp: GetVoteLatenciesHandler_def Let_def split: option.splits sum.splits prod.splits)

text \<open>
  Claim C9. The limit the events handler works with lies in (0, 50000] and is 10000
  whenever the \<open>limit\<close> parameter is absent, does not parse, or parses outside that range;
  a value inside the range is kept. The \<open>perPage\<close> of the latency table lies in (0, 1000]
  and is 100 whenever the parameter is absent, does not parse, or parses outside that
  range; a value inside is kept. Both are the values the responses report.
\<close>

theorem C9_effective_limits:
  "0 < event_limit e s \<and> event_limit e s \<le> 50000 \<and>
   (s = [] \<or> atoi e s = None \<or> (\<exists>v. atoi e s = Some v \<and> (v \<le> 0 \<or> 50000 < v))
      \<longrightarrow> event_limit e s = 10000) \<and>
   (\<forall>v. s \<noteq> [] \<and> atoi e s = Some v \<and> 0 < v \<and> v \<le> 50000 \<longrightarrow> event_limit e s = v) \<and>
   0 < latency_perPage e s \<and> latency_perPage e s \<le> 1000 \<and>
   (s = [] \<or> atoi e s = None \<or> (\<exists>v. atoi e s = Some v \<and> (v \<le> 0 \<or> 1000 < v))
      \<longrightarrow> latency_perPage e s = 100) \<and>
   (\<forall>v. s \<noteq> [] \<and> atoi e s = Some v \<and> 0 < v \<and> v \<le> 1000 \<longrightarrow> latency_perPage e s = v) \<and>
   (\<forall>resp. GetConsensusEventsHandler e coll q = Inr resp
      \<longrightarrow> Limit (Pagination resp) = event_limit e (q_limit q)) \<and>
   (\<forall>r. GetVoteLatenciesHandler e pct vcoll f t pg s th = Inr r
      \<longrightarrow> PerPage (pv_Pagination r) = latency_perPage e s)"
  using handler_limit latency_handler_perPage
  by (auto simp: event_limit_def latency_perPage_def split: option.splits)

lemma atoi_60000: "atoi_dec ''60000'' = Some 60000"
  by (simp add: atoi_dec_def digit_val_def)

theorem C9_witness:
  "atoi env0 ''60000'' = Some 60000 \<and> event_limit env0 ''60000'' = 10000 \<and>
   latency_perPage env0 ''60000'' = 100"
  using C9_effective_limits [of env0 "''60000''"] atoi_60000
  by (simp add: env0_def)

section \<open>Network latency overview\<close>

text \<open>
  Claim C3, evaluated on the code. On the two summaries (A,B) vote {count 10, p95 100} and
  (B,C) vote {count 5, p95 200} the overall weighted average is (100*10 + 200*5)/15 =
  400/3, as the claim says. Node B, however, is credited the counts 10/2 = 5 and 5/2 = 2
  (integer division), so its average is (500 + 500)/7 = 1000/7, about 142.9 and not
  133.3; node C's average, 500/2 = 250, exceeds every p95 of the input. All values before
  the last division are integers, so they are exact in \<open>float64\<close> as well.
\<close>

theorem C3_overview_scenario:
  "OverallWeightedAvgP95LatencyMs (GetNetworkLatencyOverview [docAB, docBC]) = 400 / 3 \<and>
   NodeLatencyContribution (GetNetworkLatencyOverview [docAB, docBC]) =
     [(''A'', 100), (''B'', 1000 / 7), (''C'', 250)]"
  by (simp add: GetNetworkLatencyOverview_def process_document_def process_message_type_def
      accumulate_def string_of_def go_div_def docAB_def docBC_def averages_def)

section \<open>Message success rate\<close>

lemma sum_list_all_zero:
  "(\<forall>p \<in> set ps. f p = (0::int)) \<Longrightarrow> sum_list (map f ps) = 0"
  by (induction ps) auto

text \<open>
  The window stage keeps \<open>sendVote\<close> events only, so no \<open>receiveVote\<close> event reaches
  the grouping: every row reports no receive and a rate of 0.
\<close>

lemma success_rate_recv_zero:
  assumes "r \<in> set (ComputeMessageSuccessRate coll from to)"
  shows "recvCnt r = 0 \<and> successRate r = 0"
proof -
  define projected where "projected = map rate_project
      (filter (\<lambda>d. etype d \<in> set [''sendVote'', ''receiveVote''])
         (filter (matchTime from to) coll))"
  from assms obtain k where r: "r = rate_group projected k"
    by (auto simp: ComputeMessageSuccessRate_def Let_def projected_def)
  have "\<forall>p \<in> set projected. snd (snd (snd p)) = 0"
    by (auto simp: projected_def rate_project_def matchTime_def)
  then have
    "sum_list (map (\<lambda>p. snd (snd (snd p))) (filter (\<lambda>p. rate_key p = k) projected)) = 0"
    by (intro sum_list_all_zero) auto
  then show ?thesis by (simp add: r rate_group_def Let_def)
qed


section \<open>Block end-to-end latency\<close>

text \<open>
  The window stage keeps \<open>sendVote\<close> events only and the next stage asks for
  \<open>enteringNewRound\<close>: nothing passes both.
\<close>

lemma e2e_always_empty: "ComputeBlockEndToEndLatencyByHeight pct coll events from to = []"
proof -
  have "filter (\<lambda>d. etype d = ''enteringNewRound'') (filter (matchTime from to) coll) = []"
    by (auto simp: filter_empty_conv matchTime_def)
  then show ?thesis by (simp add: ComputeBlockEndToEndLatencyByHeight_def)
qed

text \<open>
  Claim C2, evaluated on the code. An \<open>enteringNewRound\<close> event at height 1 (time 1) and
  a \<open>receivedCompleteProposalBlock\<close> event at height 1 (time 4), both in the window and
  in both collections: the claim asks for one latency point (height 1, latency 3) and so
  one row for height 1; the code returns no row.
\<close>

theorem C2_end_to_end_at_input:
  "ComputeBlockEndToEndLatencyByHeight nearest_rank
     [ev ''enteringNewRound'' 1, ev ''receivedCompleteProposalBlock'' 4]
     [ev ''enteringNewRound'' 1, ev ''receivedCompleteProposalBlock'' 4] 0 10 = []"
  by (simp add: ComputeBlockEndToEndLatencyByHeight_def matchTime_def ev_def)

section \<open>Percentile threshold filter\<close>

text \<open>
  Claim C7. When the window holds no confirmed sample, the filter returns the empty page
  with total 0 and no error, whatever the page, page size and percentile key.
\<close>

theorem C7_empty_window:
  "filter (confirmed_in_window from to) coll = [] \<Longrightarrow>
   GetVoteLatencies pct coll from to page perPage percentile =
     Inr \<lparr>vr_Data = [], vr_Total = 0\<rparr>"
  by (simp add: GetVoteLatencies_def percentilePipeline_def Let_def split: prod.splits)

theorem C7_witness:
  "filter (confirmed_in_window 10 20)
     [sample 1 5, (sample 12 3)\<lparr>vl_status := ''unconfirmed''\<rparr>] = [] \<and>
   GetVoteLatencies nearest_rank
     [sample 1 5, (sample 12 3)\<lparr>vl_status := ''unconfirmed''\<rparr>] 10 20 1 100 ''p95'' =
     Inr \<lparr>vr_Data = [], vr_Total = 0\<rparr>"
proof -
  have h: "filter (confirmed_in_window 10 20)
      [sample 1 5, (sample 12 3)\<lparr>vl_status := ''unconfirmed''\<rparr>] = []"
    by (simp add: confirmed_in_window_def sample_def VoteMsgStatusConfirmed_def)
  show ?thesis using h C7_empty_window [OF h, of nearest_rank 1 100 "''p95''"] by simp
qed

lemma wrap64_id: "- (2 ^ 63) \<le> x \<Longrightarrow> x < 2 ^ 63 \<Longrightarrow> wrap64 x = x"
  by (simp add: wrap64_def)

lemma sorted_page:
  "sorted (map f (take n (drop m (sort_key f xs))))"
proof -
  have "sorted (take n (drop m (map f (sort_key f xs))))"
    by (intro sorted_wrt_take sorted_wrt_drop sorted_sort_key)
  then show ?thesis by (simp add: take_map drop_map)
qed

lemma percentile_of_values:
  "fst (percentile_of ''p50'') = 1 / 2 \<and> fst (percentile_of ''p95'') = 95 / 100 \<and>
   fst (percentile_of ''p99'') = 99 / 100"
  by (simp add: percentile_of_def)

lemma sample_fields:
  "vl_status (sample t l) = ''confirmed''" "vl_sentTime (sample t l) = t"
  "vl_latency (sample t l) = l" "stats_key (sample t l) = (''A'', ''B'', ''prevote'')"
  by (simp_all add: sample_def stats_key_def)

text \<open>
  Claim C4. For a page number of at least 1 and a page size of at least 1 (what the
  handler passes on), with \<open>(page - 1) * perPage\<close> inside Go's \<open>int\<close>, and for any
  percentile key (\<open>p50\<close>, \<open>p95\<close>, \<open>p99\<close>; anything else counts as \<open>p95\<close>): let \<open>T\<close> be
  the store's percentile of the latencies of all confirmed samples sent in the window.
  The filter returns without error; the matching rows are exactly the confirmed samples
  of the window with latency at least \<open>T\<close>; the total is their number; the page is
  those rows sorted by \<open>sentTime\<close> ascending, without the first \<open>(page - 1) * perPage\<close>
  and cut to \<open>perPage\<close> rows.
\<close>

theorem C4_threshold_filter:
  fixes pct :: "rat \<Rightarrow> int list \<Rightarrow> rat"
    and coll :: "VoteLatency list" and since until page perPage :: int and percentile :: string
  defines "confirmed \<equiv> filter (confirmed_in_window since until) coll"
  defines "T \<equiv> pct (fst (percentile_of percentile)) (map vl_latency confirmed)"
  defines "hits \<equiv> filter (\<lambda>d. T \<le> of_int (vl_latency d)) confirmed"
  assumes page: "1 \<le> page" and perPage: "1 \<le> perPage"
    and range: "(page - 1) * perPage < 2 ^ 63"
  shows "\<exists>res. GetVoteLatencies pct coll since until page perPage percentile = Inr res \<and>
     vr_Data res =
       take (nat perPage) (drop (nat ((page - 1) * perPage)) (sort_key vl_sentTime hits)) \<and>
     vr_Total res = int (length hits) \<and>
     sorted (map vl_sentTime (vr_Data res)) \<and>
     length (vr_Data res) \<le> nat perPage \<and>
     set hits =
       {d \<in> set coll. confirmed_in_window since until d \<and> T \<le> of_int (vl_latency d)} \<and>
     fst (percentile_of percentile) =
       (if percentile = ''p50'' then 50 / 100
        else if percentile = ''p99'' then 99 / 100 else 95 / 100)"
proof -
  have pv: "fst (percentile_of percentile) =
       (if percentile = ''p50'' then 50 / 100
        else if percentile = ''p99'' then 99 / 100 else 95 / 100)"
    by (simp add: percentile_of_def)
  have nonneg: "0 \<le> (page - 1) * perPage" using page perPage by simp
  then have skip: "wrap64 ((page - 1) * perPage) = (page - 1) * perPage"
    using range by (intro wrap64_id) auto
  have sethits: "set hits = {d \<in> set coll. confirmed_in_window since until d \<and> T \<le> of_int (vl_latency d)}"
    by (auto simp: hits_def confirmed_def)
  obtain v k where pk: "percentile_of percentile = (v, k)" by (cases "percentile_of percentile")
  show ?thesis
  proof (cases "confirmed = []")
    case True
    then have "GetVoteLatencies pct coll since until page perPage percentile = Inr \<lparr>vr_Data = [], vr_Total = 0\<rparr>"
      by (simp add: GetVoteLatencies_def percentilePipeline_def Let_def confirmed_def split: prod.splits)
    moreover have "hits = []" using True by (simp add: hits_def)
    ultimately show ?thesis using sethits pv by simp
  next
    case False
    have T: "T = pct v (map vl_latency confirmed)" by (simp add: T_def pk)
    have ms: "matchStage coll since until (pct v (map vl_latency confirmed)) = hits"
      by (simp add: matchStage_def hits_def confirmed_def conj_commute T)
    have pp: "percentilePipeline pct coll since until k v = [(k, [pct v (map vl_latency confirmed)])]"
      using False by (simp add: percentilePipeline_def confirmed_def Let_def)
    have dp: "dataPipeline hits ((page - 1) * perPage) perPage =
        Inr (take (nat perPage) (drop (nat ((page - 1) * perPage)) (sort_key vl_sentTime hits)))"
      using nonneg perPage by (simp add: dataPipeline_def)
    have "GetVoteLatencies pct coll since until page perPage percentile =
        Inr \<lparr>vr_Data = take (nat perPage) (drop (nat ((page - 1) * perPage)) (sort_key vl_sentTime hits)),
             vr_Total = int (length hits)\<rparr>"
      by (simp add: GetVoteLatencies_def pk pp ms skip dp)
    then show ?thesis using sethits pv by (simp add: sorted_page)
  qed
qed

theorem C4_witness:
  "(1::int) \<le> 2 \<and> (2 - 1) * 2 < (2::int) ^ 63 \<and>
   GetVoteLatencies nearest_rank [sample 0 5, sample 1 2, sample 2 8, sample 3 9] 0 10 2 2 ''p50'' =
     Inr \<lparr>vr_Data = [sample 3 9], vr_Total = 3\<rparr>"
proof -
  let ?coll = "[sample 0 5, sample 1 2, sample 2 8, sample 3 9]"
  have conf: "filter (confirmed_in_window 0 10) ?coll = ?coll"
    by (simp add: confirmed_in_window_def sample_fields VoteMsgStatusConfirmed_def)
  have T: "nearest_rank (fst (percentile_of ''p50'')) (map vl_latency ?coll) = 5"
    by (simp add: nearest_rank_def percentile_of_def sample_fields)
  have hits: "filter (\<lambda>d. (5::rat) \<le> of_int (vl_latency d)) ?coll = [sample 0 5, sample 2 8, sample 3 9]"
    by (simp add: sample_fields)
  have srt: "sort_key vl_sentTime [sample 0 5, sample 2 8, sample 3 9] = [sample 0 5, sample 2 8, sample 3 9]"
    by (simp add: sample_fields)
  have h1: "(1::int) \<le> 2" and h2: "((2::int) - 1) * 2 < 2 ^ 63" by simp_all
  from C4_threshold_filter [OF h1 h1 h2, of nearest_rank ?coll 0 10 "''p50''"]
  obtain res where "GetVoteLatencies nearest_rank ?coll 0 10 2 2 ''p50'' = Inr res"
    and "vr_Data res = [sample 3 9]" and "vr_Total res = 3"
    unfolding conf T hits srt by auto
  then show ?thesis by (cases res) simp
qed

section \<open>Vote statistics\<close>

lemma stats_rows:
  assumes "r \<in> set (ComputeVoteStatistics pct coll since until)"
  shows "\<exists>k \<in> stats_key ` set (filter (confirmed_in_window since until) coll).
           r = stats_row (stats_group pct (filter (confirmed_in_window since until) coll) k)"
  using assms by (auto simp: ComputeVoteStatistics_def Let_def)

lemma stats_row_key:
  "(Sender (stats_row (stats_group pct m k)), Receiver (stats_row (stats_group pct m k)),
    VoteType (stats_row (stats_group pct m k))) = k"
  by (simp add: stats_row_def stats_group_def Let_def)

text \<open>
  Claim C8. Every row of the vote statistics belongs to a group (sender, receiver, vote
  type) of \<open>n \<ge> 1\<close> confirmed samples of the window. With \<open>p95\<close> the store's 95th
  percentile of that group's own latencies, the row's \<open>spikePerc\<close> is 100 times the
  number of the group's latencies that are at least \<open>2 * p95\<close>, divided by \<open>n\<close>; it lies
  in [0, 100], and it is 0 when every latency of the group is below \<open>2 * p95\<close>.
\<close>

theorem C8_spike_percentage:
  fixes pct :: "rat \<Rightarrow> int list \<Rightarrow> rat"
    and coll :: "VoteLatency list" and since until :: int and r :: VoteStatisticsResponse
  defines "lats \<equiv> map vl_latency
      (filter (\<lambda>d. confirmed_in_window since until d \<and>
                   stats_key d = (Sender r, Receiver r, VoteType r)) coll)"
  defines "p95 \<equiv> pct (95 / 100) lats"
  assumes row: "r \<in> set (ComputeVoteStatistics pct coll since until)"
  shows "Count r = int (length lats) \<and> 1 \<le> Count r \<and>
     SpikePerc r =
       100 * of_nat (length (filter (\<lambda>x. 2 * p95 \<le> of_int x) lats)) / of_int (Count r) \<and>
     0 \<le> SpikePerc r \<and> SpikePerc r \<le> 100 \<and>
     ((\<forall>x \<in> set lats. of_int x < 2 * p95) \<longrightarrow> SpikePerc r = 0)"
proof -
  define m where "m = filter (confirmed_in_window since until) coll"
  from stats_rows [OF row] obtain k where k: "k \<in> stats_key ` set m"
    and r: "r = stats_row (stats_group pct m k)"
    unfolding m_def by blast
  have key: "(Sender r, Receiver r, VoteType r) = k"
    unfolding r by (rule stats_row_key)
  have lats: "lats = map vl_latency (filter (\<lambda>d. stats_key d = k) m)"
    by (simp add: lats_def key m_def)
  define n where "n = length lats"
  define s where "s = length (filter (\<lambda>x. 2 * p95 \<le> of_int x) lats)"
  have npos: "0 < n"
    using k by (auto simp: n_def lats filter_empty_conv)
  have sn: "s \<le> n" by (simp add: s_def n_def)
  have cnt: "Count r = int n"
    by (simp add: r stats_row_def stats_group_def Let_def n_def lats)
  have sp: "SpikePerc r = of_nat s / of_nat n * 100"
    by (simp add: r stats_row_def stats_group_def Let_def n_def s_def lats p95_def mult.commute)
  have ratio: "(of_nat s :: rat) / of_nat n \<le> 1"
    using sn npos by (simp add: divide_le_eq_1)
  have ge0: "0 \<le> (of_nat s :: rat) / of_nat n" by simp
  have "(of_nat s :: rat) / of_nat n * 100 \<le> 1 * 100"
    by (intro mult_right_mono ratio) simp
  then have le: "SpikePerc r \<le> 100" by (simp add: sp)
  have ge: "0 \<le> SpikePerc r" using ge0 by (simp add: sp)
  have zero: "(\<forall>x \<in> set lats. of_int x < 2 * p95) \<longrightarrow> SpikePerc r = 0"
  proof
    assume "\<forall>x \<in> set lats. of_int x < 2 * p95"
    then have "filter (\<lambda>x. 2 * p95 \<le> of_int x) lats = []"
      by (auto simp: filter_empty_conv)
    then show "SpikePerc r = 0" by (simp add: sp s_def)
  qed
  show ?thesis
    using cnt npos le ge zero by (simp add: sp s_def [symmetric] n_def [symmetric])
qed

lemma stats3:
  "ComputeVoteStatistics nearest_rank [sample 0 5, sample 1 2, sample 2 8] 0 10 = [row3]"
  by code_simp

lemma p95_of_3: "nearest_rank (95 / 100) [5, 2, 8] = 8"
  by code_simp

theorem C8_witness:
  "row3 \<in> set (ComputeVoteStatistics nearest_rank [sample 0 5, sample 1 2, sample 2 8] 0 10) \<and>
   nearest_rank (95 / 100) [5, 2, 8] = 8 \<and> Count row3 = 3 \<and> SpikePerc row3 = 0"
proof -
  have h: "row3 \<in> set (ComputeVoteStatistics nearest_rank [sample 0 5, sample 1 2, sample 2 8] 0 10)"
    by (simp add: stats3)
  from C8_spike_percentage [OF h] have "0 \<le> SpikePerc row3" by simp
  with h p95_of_3 show ?thesis by (simp add: row3_def)
qed

section \<open>Event pagination\<close>


text \<open>The skip of a segment is \<open>(segment - 1) * limit\<close> as long as that fits Go's \<open>int\<close>.\<close>

lemma segment_skip_eq:
  assumes "s \<noteq> []" and "atoi e s = Some segment" and "0 < segment" and "0 \<le> limit"
    and "(segment - 1) * limit < 2 ^ 63"
  shows "segment_skip e s limit = (segment - 1) * limit"
proof -
  have "0 \<le> (segment - 1) * limit" using assms(3,4) by simp
  then have "wrap64 ((segment - 1) * limit) = (segment - 1) * limit"
    using assms(5) by (simp add: wrap64_def)
  then show ?thesis using assms(1-3) by (simp add: segment_skip_def)
qed

lemma build_match_Inr:
  assumes "build_match e h f t c b = Inr mc"
  shows "type_nin mc = excludedTypes"
    and "f_gte (ts_filter mc) = (if h then Some f else None)"
    and "f_lte (ts_filter mc) = (if h then Some t else None)"
    and "f_gt (ts_filter mc) = (if c = [] then None else parseRFC3339 e c)"
    and "f_lt (ts_filter mc) = (if b = [] then None else parseRFC3339 e b)"
    and "c \<noteq> [] \<Longrightarrow> parseRFC3339 e c \<noteq> None"
    and "b \<noteq> [] \<Longrightarrow> parseRFC3339 e b \<noteq> None"
  using assms
  by (auto simp: build_match_def Let_def split: if_splits option.splits sum.splits)

lemma decode_all_Inr:
  "decode_all e ds = Inr xs \<Longrightarrow> map (snd \<circ> fst) xs = ds \<and> map snd xs = map timestamp ds"
proof (induction ds arbitrary: xs)
  case Nil
  then show ?case by simp
next
  case (Cons d ds)
  then show ?case
    by (auto simp: DecodeConsensusEvent_def split: sum.splits if_splits)
qed

lemma handler_Inr:
  assumes "GetConsensusEventsHandler e coll q = Inr resp"
  obtains f t mc allEvents where
    "q_from q \<noteq> [] \<or> q_to q \<noteq> [] \<Longrightarrow> TimeWindowFromContext e (q_from q) (q_to q) = Some (f, t)"
    "build_match e (q_from q \<noteq> [] \<or> q_to q \<noteq> []) f t (q_cursor q) (q_before q) = Inr mc"
    "decode_all e (run_pipeline coll mc (segment_skip e (q_segment q) (event_limit e (q_limit q)))
        (event_limit e (q_limit q) + 1)) = Inr allEvents"
    "resp = build_response e (event_limit e (q_limit q)) (q_cursor q)
        (if q_includeTotalCount q = ''true''
         then Some (int (length (filter (matches mc) coll))) else None) allEvents"
  using assms
  by (auto simp: GetConsensusEventsHandler_def Let_def
      split: option.splits sum.splits prod.splits if_splits)

lemma matches_admitted:
  assumes tw: "q_from q \<noteq> [] \<or> q_to q \<noteq> [] \<Longrightarrow> TimeWindowFromContext e (q_from q) (q_to q) = Some (f, t)"
    and bm: "build_match e (q_from q \<noteq> [] \<or> q_to q \<noteq> []) f t (q_cursor q) (q_before q) = Inr mc"
  shows "matches mc d = admitted e q d"
proof -
  note b = build_match_Inr [OF bm]
  show ?thesis
    unfolding matches_def ts_matches_def admitted_def b(1-5)
    using tw b(6,7)
    by (auto split: option.splits)
qed

lemma handler_shape:
  assumes H: "GetConsensusEventsHandler e coll q = Inr resp"
  defines "limit \<equiv> event_limit e (q_limit q)"
  defines "fetched \<equiv> take (nat (limit + 1))
      (drop (nat (segment_skip e (q_segment q) limit))
        (sort_key timestamp (filter (admitted e q) coll)))"
  obtains allEvents where
    "map (snd \<circ> fst) allEvents = fetched"
    "map snd allEvents = map timestamp fetched"
    "resp = build_response e limit (q_cursor q)
        (if q_includeTotalCount q = ''true''
         then Some (int (length (filter (admitted e q) coll))) else None) allEvents"
proof -
  from handler_Inr [OF H] obtain f t mc allEvents where
    tw: "q_from q \<noteq> [] \<or> q_to q \<noteq> [] \<Longrightarrow> TimeWindowFromContext e (q_from q) (q_to q) = Some (f, t)"
    and bm: "build_match e (q_from q \<noteq> [] \<or> q_to q \<noteq> []) f t (q_cursor q) (q_before q) = Inr mc"
    and da: "decode_all e (run_pipeline coll mc (segment_skip e (q_segment q) limit) (limit + 1)) = Inr allEvents"
    and resp: "resp = build_response e limit (q_cursor q)
        (if q_includeTotalCount q = ''true''
         then Some (int (length (filter (matches mc) coll))) else None) allEvents"
    unfolding limit_def by blast
  have eq: "filter (matches mc) coll = filter (admitted e q) coll"
    using matches_admitted [OF tw bm] by (intro filter_cong) auto
  have rp: "run_pipeline coll mc (segment_skip e (q_segment q) limit) (limit + 1) = fetched"
    by (simp add: run_pipeline_def Let_def eq fetched_def)
  from decode_all_Inr [OF da [unfolded rp]] resp [unfolded eq] that
  show thesis by blast
qed

lemma build_match_succeeds:
  assumes "c \<noteq> [] \<Longrightarrow> parseRFC3339 e c \<noteq> None"
    and "b \<noteq> [] \<Longrightarrow> parseRFC3339 e b \<noteq> None"
  shows "\<exists>mc. build_match e h f t c b = Inr mc"
proof (cases "c = []")
  case True
  with assms(2) show ?thesis
    by (cases "b = []") (auto simp: build_match_def Let_def)
next
  case False
  with assms show ?thesis
    by (cases "b = []") (auto simp: build_match_def Let_def)
qed

lemma decode_all_succeeds:
  assumes "\<forall>d \<in> set ds. unmarshal e ''baseDoc'' d \<and> unmarshal e (event_struct (eventType d)) d"
  shows "\<exists>xs. decode_all e ds = Inr xs"
  using assms by (induction ds) (auto simp: DecodeConsensusEvent_def)

text \<open>
  The handler answers with a page whenever the time window, the cursor and \<open>before\<close>
  parse and every stored document decodes.
\<close>

lemma handler_succeeds:
  assumes tw: "q_from q \<noteq> [] \<or> q_to q \<noteq> [] \<Longrightarrow>
      TimeWindowFromContext e (q_from q) (q_to q) \<noteq> None"
    and cur: "q_cursor q \<noteq> [] \<Longrightarrow> parseRFC3339 e (q_cursor q) \<noteq> None"
    and bef: "q_before q \<noteq> [] \<Longrightarrow> parseRFC3339 e (q_before q) \<noteq> None"
    and dec: "\<forall>d \<in> set coll.
      unmarshal e ''baseDoc'' d \<and> unmarshal e (event_struct (eventType d)) d"
  shows "\<exists>resp. GetConsensusEventsHandler e coll q = Inr resp"
proof -
  obtain f t where ft: "(if q_from q \<noteq> [] \<or> q_to q \<noteq> []
      then TimeWindowFromContext e (q_from q) (q_to q) else Some (0, 0)) = Some (f, t)"
    using tw by (cases "q_from q \<noteq> [] \<or> q_to q \<noteq> []") auto
  obtain mc where mc: "build_match e (q_from q \<noteq> [] \<or> q_to q \<noteq> []) f t
      (q_cursor q) (q_before q) = Inr mc"
    using build_match_succeeds [OF cur bef] by blast
  have "set (run_pipeline coll mc sk fl) \<subseteq> set coll" for sk fl
    by (auto simp: run_pipeline_def Let_def dest!: in_set_takeD in_set_dropD)
  then have "\<exists>xs. decode_all e (run_pipeline coll mc sk fl) = Inr xs" for sk fl
    using dec by (intro decode_all_succeeds) blast
  then obtain xs where "decode_all e (run_pipeline coll mc
      (segment_skip e (q_segment q) (event_limit e (q_limit q)))
      (event_limit e (q_limit q) + 1)) = Inr xs"
    by blast
  then show ?thesis
    using ft mc by (simp add: GetConsensusEventsHandler_def Let_def)
qed



lemma run10: "GetConsensusEventsHandler env0 coll4
    (q0\<lparr>q_limit := ''2'', q_cursor := ''2024-01-01T00:00:01Z'',
        q_includeTotalCount := ''true''\<rparr>) = Inr resp10"
  by code_simp



text \<open>
  Claim C10. Whenever the events handler answers with a page, no returned event has one
  of the seven excluded p2p types, whatever the request's parameters; the total count,
  reported only on request, counts the documents that pass the filters, none of which
  has an excluded type.
\<close>

theorem C10_excluded_types:
  assumes H: "GetConsensusEventsHandler e coll q = Inr resp"
  shows "(\<forall>x \<in> set (Data resp). etype (snd x) \<notin>
            {''p2pProposal'', ''p2pProposalPOL'', ''p2pNewRoundStep'', ''p2pHasVote'',
             ''p2pVoteSetMaj23'', ''p2pVoteSetBits'', ''p2pHasProposalBlockPart''}) \<and>
     TotalCount (Pagination resp) =
       (if q_includeTotalCount q = ''true''
        then Some (int (length (filter (admitted e q) coll))) else None) \<and>
     (\<forall>d. admitted e q d \<longrightarrow> etype d \<notin>
            {''p2pProposal'', ''p2pProposalPOL'', ''p2pNewRoundStep'', ''p2pHasVote'',
             ''p2pVoteSetMaj23'', ''p2pVoteSetBits'', ''p2pHasProposalBlockPart''})"
proof -
  let ?limit = "event_limit e (q_limit q)"
  let ?fetched = "take (nat (?limit + 1))
      (drop (nat (segment_skip e (q_segment q) ?limit))
        (sort_key timestamp (filter (admitted e q) coll)))"
  from handler_shape [OF H] obtain allEvents where
    a1: "map (snd \<circ> fst) allEvents = ?fetched"
    and resp: "resp = build_response e ?limit (q_cursor q)
        (if q_includeTotalCount q = ''true''
         then Some (int (length (filter (admitted e q) coll))) else None) allEvents"
    by blast
  have adm: "etype d \<notin> set excludedTypes" if "admitted e q d" for d
    using that by (simp add: admitted_def)
  have sub: "set (Data resp) \<subseteq> fst ` set allEvents"
    by (auto simp: resp build_response_def Let_def dest: in_set_takeD)
  have "admitted e q (snd x)" if "x \<in> set (Data resp)" for x
  proof -
    from that sub obtain y where y: "y \<in> set allEvents" and x: "x = fst y" by auto
    then have "snd x \<in> set (map (snd \<circ> fst) allEvents)" by auto
    then have "snd x \<in> set ?fetched" by (simp only: a1)
    then have "snd x \<in> set (filter (admitted e q) coll)"
      by (auto dest!: in_set_takeD in_set_dropD)
    then show ?thesis by simp
  qed
  then have "\<forall>x \<in> set (Data resp). etype (snd x) \<notin> set excludedTypes"
    using adm by blast
  moreover have "TotalCount (Pagination resp) =
       (if q_includeTotalCount q = ''true''
        then Some (int (length (filter (admitted e q) coll))) else None)"
    by (simp add: resp build_response_def Let_def)
  moreover have "\<forall>d. admitted e q d \<longrightarrow> etype d \<notin> set excludedTypes"
    using adm by blast
  ultimately show ?thesis by (simp add: excludedTypes_def)
qed

theorem C10_witness:
  "GetConsensusEventsHandler env0 coll4
    (q0\<lparr>q_limit := ''2'', q_cursor := ''2024-01-01T00:00:01Z'',
        q_includeTotalCount := ''true''\<rparr>) = Inr resp10 \<and>
   TotalCount (Pagination resp10) = Some 2 \<and>
   map (etype \<circ> snd) (Data resp10) = [''receivedProposal'', ''enteringNewRound'']"
  using C10_excluded_types [OF run10] run10
  by (simp add: resp10_def ev_def)






end
